theory Spec2Isabelle
  imports Main "HOL-Library.Sublist" "HOL-Library.AList"
begin

section \<open>The environment: paths and a file system\<close>

text \<open>
  Both source files work on path strings. \<open>path_join\<close> is \<^verbatim>\<open>os.path.join\<close> for two
  arguments on POSIX: an absolute second argument replaces the first, an empty first
  argument or one ending in a separator takes the second unchanged, and otherwise a
  separator is put between them.
\<close>

definition path_join :: "string \<Rightarrow> string \<Rightarrow> string" where
  "path_join a b =
     (if prefix ''/'' b then b
      else if a = [] \<or> suffix ''/'' a then a @ b
      else a @ ''/'' @ b)"

text \<open>
  The file system maps a resolved path (the list of its components from the root) to
  a node; the order of the association list is the order in which a directory is
  listed, and the root is always a directory. Resolution is textual: empty and \<^verbatim>\<open>.\<close>
  components are dropped, \<^verbatim>\<open>..\<close> goes up, and a relative path starts at the working
  directory. There are no symbolic links.
\<close>

datatype node = File string | Dir

record world =
  cwd :: string
  nodes :: "(string list \<times> node) list"

fun split_path :: "string \<Rightarrow> string \<Rightarrow> string list" where
  "split_path acc [] = [rev acc]"
| "split_path acc (c # cs) =
     (if c = CHR ''/'' then rev acc # split_path [] cs else split_path (c # acc) cs)"

fun walk :: "string list \<Rightarrow> string list \<Rightarrow> string list" where
  "walk k [] = k"
| "walk k (c # cs) =
     (if c = [] \<or> c = ''.'' then walk k cs
      else if c = ''..'' then walk (butlast k) cs
      else walk (k @ [c]) cs)"

definition base_of :: "world \<Rightarrow> string \<Rightarrow> string list" where
  "base_of w p = (if prefix ''/'' p then [] else walk [] (split_path [] (cwd w)))"

definition resolve :: "world \<Rightarrow> string \<Rightarrow> string list" where
  "resolve w p = walk (base_of w p) (split_path [] p)"

definition node_at :: "(string list \<times> node) list \<Rightarrow> string list \<Rightarrow> node option" where
  "node_at ns k = (if k = [] then Some Dir else map_of ns k)"

definition lookup :: "world \<Rightarrow> string \<Rightarrow> node option" where
  "lookup w p = node_at (nodes w) (resolve w p)"

definition listdir :: "world \<Rightarrow> string \<Rightarrow> string list" where
  "listdir w p =
     (let d = resolve w p
      in map (\<lambda>e. last (fst e)) (filter (\<lambda>e. fst e \<noteq> [] \<and> butlast (fst e) = d) (nodes w)))"

section \<open>Errors and JSON values\<close>

text \<open>
  One constructor for each exception the two source files can raise themselves or get
  from the operating system, and \<open>External\<close> for an exception raised inside a library or
  helper whose code is elsewhere (its description is kept).
  \<open>NotBinaryError n\<close> is \<^verbatim>\<open>Exception("The model must have 2 classes, but has n classes.")\<close>,
  \<open>NoConfigError\<close> and \<open>ManyConfigError\<close> are the two \<^verbatim>\<open>FileNotFoundError\<close>s raised by the
  resolver with their fixed messages; \<open>FileNotFoundError p\<close> is the operating system's,
  for the path \<open>p\<close>.
\<close>

datatype error =
    NotBinaryError nat
  | NoConfigError
  | ManyConfigError
  | FileNotFoundError string
  | IsADirectoryError string
  | NotADirectoryError string
  | FileExistsError string
  | TypeError
  | KeyError string
  | External string

datatype json =
    JNull
  | JBool bool
  | JNum string
  | JStr string
  | JList "json list"
  | JDict "(string \<times> json) list"

text \<open>
  Python's \<^verbatim>\<open>len\<close> on a value parsed from JSON: a list has its length, an object the
  number of its distinct keys, a string the number of its characters; numbers,
  booleans and null have none.
\<close>

fun py_len :: "json \<Rightarrow> error + nat" where
  "py_len (JList xs) = Inr (length xs)"
| "py_len (JDict kvs) = Inr (length (remdups (map fst kvs)))"
| "py_len (JStr s) = Inr (length s)"
| "py_len _ = Inl TypeError"

section \<open>Traced computations\<close>

text \<open>
  The resolver reads the outside world in a fixed order. A computation returns the
  events it performed, oldest first, and either the exception that ended it or its
  value. \<open>io_call\<close> is a call that reaches outside (a file opened, a directory listed, a
  helper or a library that reads files); \<open>io_step\<close> is a step that does not.
\<close>

datatype event =
    EvOpen string
  | EvGlob string
  | EvGetConfig string
  | EvLoadData
  | EvJoblibLoad string

type_synonym 'a io = "event list \<times> (error + 'a)"

definition io_return :: "'a \<Rightarrow> 'a io" where
  "io_return a = ([], Inr a)"

definition io_raise :: "error \<Rightarrow> 'a io" where
  "io_raise e = ([], Inl e)"

definition io_call :: "event \<Rightarrow> error + 'a \<Rightarrow> 'a io" where
  "io_call ev r = ([ev], r)"

definition io_step :: "error + 'a \<Rightarrow> 'a io" where
  "io_step r = ([], r)"

definition io_bind :: "'a io \<Rightarrow> ('a \<Rightarrow> 'b io) \<Rightarrow> 'b io" where
  "io_bind m f =
     (case m of
        (t, Inl e) \<Rightarrow> (t, Inl e)
      | (t, Inr a) \<Rightarrow> (case f a of (t', r) \<Rightarrow> (t @ t', r)))"

definition external :: "string + 'a \<Rightarrow> error + 'a" where
  "external r = (case r of Inl msg \<Rightarrow> Inl (External msg) | Inr a \<Rightarrow> Inr a)"

section \<open>File operations\<close>

definition open_read :: "world \<Rightarrow> string \<Rightarrow> error + string" where
  "open_read w p =
     (case lookup w p of
        None \<Rightarrow> Inl (FileNotFoundError p)
      | Some Dir \<Rightarrow> Inl (IsADirectoryError p)
      | Some (File c) \<Rightarrow> Inr c)"

text \<open>
  \<^verbatim>\<open>glob.glob("*" + ext)\<close> for an extension without wildcards or separators: the names
  listed in the working directory that end in the extension and do not start with a
  dot (a leading dot is only matched by a pattern that starts with one), files and
  directories alike, in listing order.
\<close>

definition fnmatch_star :: "string \<Rightarrow> string list \<Rightarrow> string list" where
  "fnmatch_star ext names = filter (\<lambda>n. suffix ext n \<and> \<not> prefix ''.'' n) names"

definition glob_star :: "world \<Rightarrow> string \<Rightarrow> string list" where
  "glob_star w ext = fnmatch_star ext (listdir w '''')"

text \<open>\<^verbatim>\<open>os.path.exists\<close>: true of files and of directories.\<close>

definition path_exists :: "world \<Rightarrow> string \<Rightarrow> bool" where
  "path_exists w p = (lookup w p \<noteq> None)"

text \<open>
  \<^verbatim>\<open>os.mkdir\<close> at a resolved path; the second argument is the path as the caller wrote
  it, for the exception.
\<close>

definition mkdir_key ::
  "(string list \<times> node) list \<Rightarrow> string \<Rightarrow> string list \<Rightarrow> error + (string list \<times> node) list" where
  "mkdir_key ns p k =
     (if node_at ns k \<noteq> None then Inl (FileExistsError p)
      else
        (case node_at ns (butlast k) of
           None \<Rightarrow> Inl (FileNotFoundError p)
         | Some (File c) \<Rightarrow> Inl (NotADirectoryError p)
         | Some Dir \<Rightarrow> Inr (ns @ [(k, Dir)])))"

text \<open>
  \<^verbatim>\<open>os.makedirs\<close> with \<^verbatim>\<open>exist_ok\<close> left at its default. The components of the path are
  taken innermost first: a trailing separator or \<^verbatim>\<open>.\<close> is skipped; when the path has a
  proper head and nothing exists there, the head is made first (finding it made
  meanwhile is not an error), and then the leaf is made with \<^verbatim>\<open>mkdir\<close>. Only directories
  named by the path itself are made, never the working directory.
\<close>

fun makedirs_comps ::
  "(string list \<times> node) list \<Rightarrow> string \<Rightarrow> string list \<Rightarrow> string list \<Rightarrow>
     error + (string list \<times> node) list" where
  "makedirs_comps ns p base [] = mkdir_key ns p base"
| "makedirs_comps ns p base (c # rcs) =
     (if c = [] \<or> c = ''.'' then makedirs_comps ns p base rcs
      else if rcs \<noteq> [] \<and> node_at ns (walk base (rev rcs)) = None
      then
        (case makedirs_comps ns p base rcs of
           Inl (FileExistsError q) \<Rightarrow> mkdir_key ns p (walk base (rev (c # rcs)))
         | Inl e \<Rightarrow> Inl e
         | Inr ns' \<Rightarrow> mkdir_key ns' p (walk base (rev (c # rcs))))
      else mkdir_key ns p (walk base (rev (c # rcs))))"

definition makedirs :: "world \<Rightarrow> string \<Rightarrow> error + world" where
  "makedirs w p =
     (case makedirs_comps (nodes w) p (base_of w p) (rev (split_path [] p)) of
        Inl e \<Rightarrow> Inl e
      | Inr ns \<Rightarrow> Inr (w\<lparr>nodes := ns\<rparr>))"

text \<open>Opening a path for writing and storing the bytes: the parent must be a directory.\<close>

definition write_file :: "world \<Rightarrow> string \<Rightarrow> string \<Rightarrow> error + world" where
  "write_file w p bytes =
     (let k = resolve w p in
      case node_at (nodes w) k of
        Some Dir \<Rightarrow> Inl (IsADirectoryError p)
      | _ \<Rightarrow>
        (case node_at (nodes w) (butlast k) of
           None \<Rightarrow> Inl (FileNotFoundError p)
         | Some (File c) \<Rightarrow> Inl (NotADirectoryError p)
         | Some Dir \<Rightarrow> Inr (w\<lparr>nodes := AList.update k (File bytes) (nodes w)\<rparr>)))"

section \<open>The model-and-data resolver\<close>

text \<open>
  The helpers \<^verbatim>\<open>get_config\<close> and \<^verbatim>\<open>load_data\<close> (modules \<^verbatim>\<open>.config\<close> and \<^verbatim>\<open>.data\<close>), the JSON
  parser and joblib's deserializer are parameters: their code is not part of
  \<^verbatim>\<open>pr_roc_curve.py\<close>. \<open>load_data\<close> returns \<open>(X_train, X_test, y_train, y_test)\<close>.
\<close>

record ('cfg, 'model, 'x, 'y) ops =
  json_load :: "string \<Rightarrow> string + json"
  get_config :: "world \<Rightarrow> string \<Rightarrow> string + 'cfg"
  load_data :: "world \<Rightarrow> 'cfg \<Rightarrow> string + ('x \<times> 'x \<times> 'y \<times> 'y)"
  unpickle :: "string \<Rightarrow> string + 'model"

definition joblib_load :: "('cfg, 'model, 'x, 'y) ops \<Rightarrow> world \<Rightarrow> string \<Rightarrow> error + 'model" where
  "joblib_load ops w p =
     (case open_read w p of Inl e \<Rightarrow> Inl e | Inr bytes \<Rightarrow> external (unpickle ops bytes))"

text \<open>\<^verbatim>\<open>_get_model_and_data\<close> of \<^verbatim>\<open>text_clf/pr_roc_curve.py\<close>.\<close>

definition get_model_and_data ::
  "('cfg, 'model, 'x, 'y) ops \<Rightarrow> world \<Rightarrow> string \<Rightarrow> ('model \<times> 'x \<times> 'y) io" where
  "get_model_and_data ops w path_to_model_folder =
     (let path_to_model = path_join path_to_model_folder ''model.joblib'';
          path_to_target_names = path_join path_to_model_folder ''target_names.json''
      in
      io_bind (io_call (EvOpen path_to_target_names) (open_read w path_to_target_names)) (\<lambda>fp.
      io_bind (io_step (external (json_load ops fp))) (\<lambda>target_names.
      io_bind (io_step (py_len target_names)) (\<lambda>n.
      if n \<noteq> 2 then io_raise (NotBinaryError n)
      else
      io_bind (io_call (EvGlob ''*.yaml'') (Inr (glob_star w ''.yaml''))) (\<lambda>yaml_list.
      if length yaml_list = 0 then io_raise NoConfigError
      else if length yaml_list > 1 then io_raise ManyConfigError
      else
      (let path_to_config = path_join path_to_model_folder (yaml_list ! 0) in
      io_bind (io_call (EvGetConfig path_to_config) (external (get_config ops w path_to_config)))
        (\<lambda>config.
      io_bind (io_call EvLoadData (external (load_data ops w config)))
        (\<lambda>(X_train, X_test, y_train, y_test).
      io_bind (io_call (EvJoblibLoad path_to_model) (joblib_load ops w path_to_model)) (\<lambda>model.
      io_return (model, X_test, y_test))))))))))"

section \<open>Curve displays\<close>

text \<open>
  \<^verbatim>\<open>plot_precision_recall_curve\<close> and \<^verbatim>\<open>plot_roc_curve\<close> each consist of one call of a
  display constructor of the plotting library on their two arguments. A display is
  modelled as the pair of sequences its constructor is given; what the constructor does
  with them is the library's. The element type is left open, since the two functions
  compute nothing on the coordinates.
\<close>

record 'a PrecisionRecallDisplay =
  prd_precision :: "'a list"
  prd_recall :: "'a list"

record 'a RocCurveDisplay =
  rcd_fpr :: "'a list"
  rcd_tpr :: "'a list"

definition plot_precision_recall_curve :: "'a list \<Rightarrow> 'a list \<Rightarrow> 'a PrecisionRecallDisplay" where
  "plot_precision_recall_curve precision recall =
     \<lparr>prd_precision = precision, prd_recall = recall\<rparr>"

definition plot_roc_curve :: "'a list \<Rightarrow> 'a list \<Rightarrow> 'a RocCurveDisplay" where
  "plot_roc_curve fpr tpr = \<lparr>rcd_fpr = fpr, rcd_tpr = tpr\<rparr>"

section \<open>The training script\<close>

text \<open>
  \<^verbatim>\<open>baseline.py\<close> is a script: its statements run in order and the first exception ends
  it. The table parser, the label encoder, the vectorizer, the classifier, the report
  and joblib's serializer belong to libraries and are parameters; a fitted object is a
  value, and transforming or predicting with it returns a result without changing it.
\<close>

definition err_bind :: "error + 'a \<Rightarrow> ('a \<Rightarrow> error + 'b) \<Rightarrow> error + 'b" where
  "err_bind m f = (case m of Inl e \<Rightarrow> Inl e | Inr a \<Rightarrow> f a)"

type_synonym frame = "(string \<times> string list) list"

definition column :: "frame \<Rightarrow> string \<Rightarrow> error + string list" where
  "column df name = (case map_of df name of None \<Rightarrow> Inl (KeyError name) | Some xs \<Rightarrow> Inr xs)"

record ('enc, 'vec, 'feat, 'clf) sklearn =
  parse_csv :: "string \<Rightarrow> string + frame"
  le_fit_transform :: "string list \<Rightarrow> string + ('enc \<times> nat list)"
  le_transform :: "'enc \<Rightarrow> string list \<Rightarrow> string + nat list"
  tfidf_fit_transform :: "string list \<Rightarrow> string + ('vec \<times> 'feat)"
  tfidf_transform :: "'vec \<Rightarrow> string list \<Rightarrow> string + 'feat"
  logreg_fit :: "'feat \<Rightarrow> nat list \<Rightarrow> string + 'clf"
  clf_predict :: "'clf \<Rightarrow> 'feat \<Rightarrow> string + nat list"
  classification_report :: "nat list \<Rightarrow> nat list \<Rightarrow> string + string"
  joblib_dumps :: "'clf \<Rightarrow> string"

definition read_csv ::
  "('enc, 'vec, 'feat, 'clf) sklearn \<Rightarrow> world \<Rightarrow> string \<Rightarrow> error + frame" where
  "read_csv sk w p = err_bind (open_read w p) (\<lambda>text. external (parse_csv sk text))"

text \<open>Lines 49 and 50: the directory is created only when nothing exists at its path.\<close>

definition ensure_directory :: "world \<Rightarrow> string \<Rightarrow> error + world" where
  "ensure_directory w directory =
     (if \<not> path_exists w directory then makedirs w directory else Inr w)"

text \<open>The variables of the script when it ends, and what it printed.\<close>

record ('enc, 'vec, 'feat, 'clf) script_state =
  le :: 'enc
  vectorizer :: 'vec
  clf :: 'clf
  y_train :: "nat list"
  y_test :: "nat list"
  X_train_tfidf :: 'feat
  X_test_tfidf :: 'feat
  y_pred :: "nat list"
  printed :: string

definition baseline ::
  "('enc, 'vec, 'feat, 'clf) sklearn \<Rightarrow> world \<Rightarrow>
     error + (world \<times> ('enc, 'vec, 'feat, 'clf) script_state)" where
  "baseline sk w =
     err_bind (read_csv sk w ''data/data_train.csv'') (\<lambda>df_train.
     err_bind (read_csv sk w ''data/data_test.csv'') (\<lambda>df_test.
     err_bind (column df_train ''Text'') (\<lambda>X_train.
     err_bind (column df_test ''Text'') (\<lambda>X_test.
     err_bind (column df_train ''Class'') (\<lambda>y_train0.
     err_bind (column df_test ''Class'') (\<lambda>y_test0.
     err_bind (external (le_fit_transform sk y_train0)) (\<lambda>(le, y_train).
     err_bind (external (le_transform sk le y_test0)) (\<lambda>y_test.
     err_bind (external (tfidf_fit_transform sk X_train)) (\<lambda>(vectorizer, X_train_tfidf).
     err_bind (external (tfidf_transform sk vectorizer X_test)) (\<lambda>X_test_tfidf.
     err_bind (external (logreg_fit sk X_train_tfidf y_train)) (\<lambda>clf.
     err_bind (external (clf_predict sk clf X_test_tfidf)) (\<lambda>y_pred.
     err_bind (external (classification_report sk y_test y_pred)) (\<lambda>report.
     (let filename = ''log_reg_tf_idf''; directory = ''saved_models'' in
     err_bind (ensure_directory w directory) (\<lambda>w1.
     (let path = directory @ ''/'' @ filename @ ''.joblib'' in
     err_bind (write_file w1 path (joblib_dumps sk clf)) (\<lambda>w2.
     Inr (w2, \<lparr>le = le, vectorizer = vectorizer, clf = clf, y_train = y_train,
              y_test = y_test, X_train_tfidf = X_train_tfidf, X_test_tfidf = X_test_tfidf,
              y_pred = y_pred, printed = report\<rparr>))))))))))))))))))"

section \<open>Concrete worlds\<close>

text \<open>
  Stand-ins for the external helpers, on configurations and models that are plain
  text: the parser knows two documents, \<open>get_config\<close> reads the file it is given,
  \<open>load_data\<close> returns a fixed split and \<open>unpickle\<close> accepts every file.
\<close>

definition demo_ops :: "(string, string, string list, nat list) ops" where
  \<open>demo_ops =
     \<lparr>json_load = (\<lambda>s.
        if s = ''["neg", "pos"]'' then Inr (JList [JStr ''neg'', JStr ''pos''])
        else if s = ''["a", "b", "c"]'' then Inr (JList [JStr ''a'', JStr ''b'', JStr ''c''])
        else Inl ''JSONDecodeError''),
      get_config = (\<lambda>w p.
        case open_read w p of Inl e \<Rightarrow> Inl ''cannot read the configuration'' | Inr c \<Rightarrow> Inr c),
      load_data = (\<lambda>w cfg. Inr ([''good film'', ''bad film''], [''fine film''], [1, 0], [1])),
      unpickle = (\<lambda>bytes. Inr bytes)\<rparr>\<close>

text \<open>
  A model folder \<^verbatim>\<open>/models/m\<close> with its three items and, beside it, folders holding other
  class-label files; \<^verbatim>\<open>/work\<close> is empty, \<^verbatim>\<open>/two\<close> holds two configuration files and
  \<^verbatim>\<open>/other\<close> one that the model folder does not have.
\<close>

definition demo_nodes :: "(string list \<times> node) list" where
  \<open>demo_nodes =
     [([''models''], Dir),
      ([''models'', ''m''], Dir),
      ([''models'', ''m'', ''model.joblib''], File ''fitted pipeline''),
      ([''models'', ''m'', ''target_names.json''], File ''["neg", "pos"]''),
      ([''models'', ''m'', ''config.yaml''], File ''test_size: 0.2''),
      ([''models'', ''three''], Dir),
      ([''models'', ''three'', ''model.joblib''], File ''fitted pipeline''),
      ([''models'', ''three'', ''target_names.json''], File ''["a", "b", "c"]''),
      ([''models'', ''three'', ''config.yaml''], File ''test_size: 0.2''),
      ([''models'', ''bare''], Dir),
      ([''models'', ''bare'', ''target_names.json''], File ''["neg", "pos"]''),
      ([''models'', ''bare'', ''config.yaml''], File ''test_size: 0.2''),
      ([''work''], Dir),
      ([''two''], Dir),
      ([''two'', ''a.yaml''], File ''test_size: 0.2''),
      ([''two'', ''b.yaml''], File ''test_size: 0.3''),
      ([''other''], Dir),
      ([''other'', ''run.yaml''], File ''test_size: 0.5'')]\<close>

definition demo_world :: "string \<Rightarrow> world" where
  "demo_world dir = \<lparr>cwd = dir, nodes = demo_nodes\<rparr>"

text \<open>
  Stand-ins for the training script's libraries: labels are numbered in order of first
  appearance, a text becomes its character counts over the characters seen in
  training, the classifier predicts the first training label, and the report marks
  each test row as right or wrong.
\<close>

definition index_of :: "'a list \<Rightarrow> 'a \<Rightarrow> nat" where
  "index_of xs x = length (takeWhile (\<lambda>y. y \<noteq> x) xs)"

definition demo_sk :: "(string list, string, nat list list, nat) sklearn" where
  "demo_sk =
     \<lparr>parse_csv = (\<lambda>s.
        if s = ''train rows''
        then Inr [(''Text'', [''good film'', ''bad film'']), (''Class'', [''pos'', ''neg''])]
        else if s = ''test rows A''
        then Inr [(''Text'', [''fine film'']), (''Class'', [''pos''])]
        else if s = ''test rows B''
        then Inr [(''Text'', [''dull film'', ''good plot'']), (''Class'', [''neg'', ''pos''])]
        else Inl ''ParserError''),
      le_fit_transform = (\<lambda>ys.
        let classes = remdups ys in Inr (classes, map (index_of classes) ys)),
      le_transform = (\<lambda>classes ys.
        if list_all (\<lambda>y. List.member classes y) ys then Inr (map (index_of classes) ys)
        else Inl ''y contains previously unseen labels''),
      tfidf_fit_transform = (\<lambda>docs.
        let vocabulary = remdups (concat docs)
        in Inr (vocabulary, map (\<lambda>d. map (count_list d) vocabulary) docs)),
      tfidf_transform = (\<lambda>vocabulary docs.
        Inr (map (\<lambda>d. map (count_list d) vocabulary) docs)),
      logreg_fit = (\<lambda>X y. case y of [] \<Rightarrow> Inl ''no samples'' | c # cs \<Rightarrow> Inr c),
      clf_predict = (\<lambda>c X. Inr (replicate (length X) c)),
      classification_report = (\<lambda>yt yp.
        Inr (map (\<lambda>(a, b). if a = b then CHR ''+'' else CHR ''-'') (zip yt yp))),
      joblib_dumps = (\<lambda>c. replicate (Suc c) (CHR ''I''))\<rparr>"

definition demo_project :: "string \<Rightarrow> world" where
  "demo_project test_rows =
     \<lparr>cwd = ''/proj'',
      nodes =
        [([''proj''], Dir),
         ([''proj'', ''data''], Dir),
         ([''proj'', ''data'', ''data_train.csv''], File ''train rows''),
         ([''proj'', ''data'', ''data_test.csv''], File test_rows)]\<rparr>"

section \<open>Properties of the resolver\<close>

lemma io_bind_Inl: "io_bind (t, Inl e) f = (t, Inl e)"
  by (simp add: io_bind_def)

lemma io_bind_Inr: "io_bind (t, Inr a) f = (t @ fst (f a), snd (f a))"
  by (simp add: io_bind_def split: prod.splits)

text \<open>
  C1. When the class-label file parses to a list whose length is not 2, the resolver
  raises the binary-classification error carrying that length, and the only thing it
  has done is open the class-label file: no configuration search, no configuration or
  data loading, no deserialization of the model.
\<close>

theorem not_binary_stops_after_class_labels:
  assumes "open_read w (path_join folder ''target_names.json'') = Inr fp"
      and "json_load ops fp = Inr (JList names)"
      and "length names \<noteq> 2"
  shows "get_model_and_data ops w folder =
           ([EvOpen (path_join folder ''target_names.json'')],
            Inl (NotBinaryError (length names)))"
  using assms
  by (simp add: get_model_and_data_def io_step_def Let_def io_call_def io_bind_Inr io_bind_Inl
      external_def io_raise_def)

theorem not_binary_stops_after_class_labels_witness:
  \<open>open_read (demo_world ''/models/three'') (path_join ''/models/three'' ''target_names.json'')
      = Inr ''["a", "b", "c"]''
   \<and> json_load demo_ops ''["a", "b", "c"]'' = Inr (JList [JStr ''a'', JStr ''b'', JStr ''c''])
   \<and> length [JStr ''a'', JStr ''b'', JStr ''c''] \<noteq> 2
   \<and> get_model_and_data demo_ops (demo_world ''/models/three'') ''/models/three''
      = ([EvOpen ''/models/three/target_names.json''], Inl (NotBinaryError 3))\<close>
proof -
  have h1: \<open>open_read (demo_world ''/models/three'')
      (path_join ''/models/three'' ''target_names.json'') = Inr ''["a", "b", "c"]''\<close>
    by code_simp
  have h2: \<open>json_load demo_ops ''["a", "b", "c"]''
      = Inr (JList [JStr ''a'', JStr ''b'', JStr ''c''])\<close>
    by (simp add: demo_ops_def)
  have h3: "length [JStr ''a'', JStr ''b'', JStr ''c''] \<noteq> 2"
    by simp
  have p: "path_join ''/models/three'' ''target_names.json'' = ''/models/three/target_names.json''"
    by code_simp
  show ?thesis
    using h1 h2 h3 not_binary_stops_after_class_labels [OF h1 h2 h3] by (simp add: p)
qed

lemma past_class_labels:
  assumes "open_read w (path_join folder ''target_names.json'') = Inr fp"
      and "json_load ops fp = Inr tn"
      and "py_len tn = Inr 2"
  shows "get_model_and_data ops w folder =
      io_bind ([EvOpen (path_join folder ''target_names.json''), EvGlob ''*.yaml''],
               Inr (glob_star w ''.yaml'')) (\<lambda>yaml_list.
      if length yaml_list = 0 then io_raise NoConfigError
      else if length yaml_list > 1 then io_raise ManyConfigError
      else
      (let path_to_config = path_join folder (yaml_list ! 0) in
      io_bind (io_call (EvGetConfig path_to_config) (external (get_config ops w path_to_config)))
        (\<lambda>config.
      io_bind (io_call EvLoadData (external (load_data ops w config)))
        (\<lambda>(X_train, X_test, y_train, y_test).
      io_bind (io_call (EvJoblibLoad (path_join folder ''model.joblib''))
                 (joblib_load ops w (path_join folder ''model.joblib''))) (\<lambda>model.
      io_return (model, X_test, y_test))))))"
  using assms
  by (simp add: get_model_and_data_def io_step_def Let_def io_call_def io_bind_Inr io_bind_Inl
      external_def io_raise_def split: prod.splits)

lemma one_config:
  assumes "open_read w (path_join folder ''target_names.json'') = Inr fp"
      and "json_load ops fp = Inr tn"
      and "py_len tn = Inr 2"
      and "glob_star w ''.yaml'' = [n]"
  shows "get_model_and_data ops w folder =
      io_bind ([EvOpen (path_join folder ''target_names.json''), EvGlob ''*.yaml'',
                EvGetConfig (path_join folder n)],
               external (get_config ops w (path_join folder n)))
        (\<lambda>config.
      io_bind (io_call EvLoadData (external (load_data ops w config)))
        (\<lambda>(X_train, X_test, y_train, y_test).
      io_bind (io_call (EvJoblibLoad (path_join folder ''model.joblib''))
                 (joblib_load ops w (path_join folder ''model.joblib''))) (\<lambda>model.
      io_return (model, X_test, y_test))))"
  by (simp add: past_class_labels [OF assms(1-3)] assms(4) io_bind_Inr Let_def io_call_def
      io_bind_def split: prod.splits sum.splits)

lemma joblib_load_cases:
  "joblib_load ops w p = Inl e \<Longrightarrow>
     e = FileNotFoundError p \<and> lookup w p = None \<or> e = IsADirectoryError p \<or> (\<exists>m. e = External m)"
  by (auto simp: joblib_load_def open_read_def external_def split: sum.splits option.splits node.splits)

lemma glob_star_listed: "n \<in> set (glob_star w ext) \<Longrightarrow> n \<in> set (listdir w [])"
  by (simp add: glob_star_def fnmatch_star_def)

lemma model_path_differs:
  "path_join folder ''target_names.json'' \<noteq> path_join folder ''model.joblib''"
  by (simp add: path_join_def)

lemma run_to_the_end:
  assumes "get_model_and_data ops w folder = (t, r)"
      and "EvJoblibLoad p \<in> set t"
  shows "\<exists>fp tn n cfg X_train X_test y_train y_test.
           open_read w (path_join folder ''target_names.json'') = Inr fp
         \<and> json_load ops fp = Inr tn \<and> py_len tn = Inr 2
         \<and> glob_star w ''.yaml'' = [n]
         \<and> get_config ops w (path_join folder n) = Inr cfg
         \<and> load_data ops w cfg = Inr (X_train, X_test, y_train, y_test)
         \<and> t = [EvOpen (path_join folder ''target_names.json''), EvGlob ''*.yaml'',
                EvGetConfig (path_join folder n), EvLoadData,
                EvJoblibLoad (path_join folder ''model.joblib'')]
         \<and> r = (case joblib_load ops w (path_join folder ''model.joblib'') of
                  Inl e \<Rightarrow> Inl e | Inr model \<Rightarrow> Inr (model, X_test, y_test))"
proof -
  obtain fp where fp: "open_read w (path_join folder ''target_names.json'') = Inr fp"
    using assms
    by (cases "open_read w (path_join folder ''target_names.json'')")
       (auto simp: get_model_and_data_def io_step_def Let_def io_call_def io_bind_Inl)
  obtain tn where tn: "json_load ops fp = Inr tn"
    using assms fp
    by (cases "json_load ops fp")
       (auto simp: get_model_and_data_def io_step_def Let_def io_call_def io_bind_Inl io_bind_Inr external_def)
  have len: "py_len tn = Inr 2"
    using assms fp tn
    by (cases "py_len tn")
       (auto simp: get_model_and_data_def io_step_def Let_def io_call_def io_bind_Inl io_bind_Inr
          external_def io_raise_def split: if_splits)
  note past = past_class_labels [OF fp tn len]
  obtain n where n: "glob_star w ''.yaml'' = [n]"
    using assms unfolding past
    by (cases "glob_star w ''.yaml''"; cases "tl (glob_star w ''.yaml'')")
       (auto simp: io_bind_Inr io_raise_def)
  note one = one_config [OF fp tn len n]
  obtain cfg where cfg: "get_config ops w (path_join folder n) = Inr cfg"
    using assms unfolding one
    by (cases "get_config ops w (path_join folder n)")
       (auto simp: io_bind_Inl external_def)
  obtain X_train X_test y_train y_test
    where ld: "load_data ops w cfg = Inr (X_train, X_test, y_train, y_test)"
    using assms unfolding one
    by (cases "load_data ops w cfg")
       (auto simp: io_bind_Inl io_bind_Inr external_def cfg io_call_def)
  show ?thesis
    using assms unfolding one
    by (intro exI [of _ fp] exI [of _ tn] exI [of _ n] exI [of _ cfg] exI [of _ X_train]
          exI [of _ X_test] exI [of _ y_train] exI [of _ y_test])
       (auto simp: fp tn len n cfg ld io_bind_Inl io_bind_Inr external_def io_call_def
          io_return_def io_bind_def split: sum.splits)
qed

lemma py_len_error: "py_len j = Inl e \<Longrightarrow> e = TypeError"
  by (cases j) auto

lemma file_not_found_only_at_load:
  assumes "get_model_and_data ops w folder =
             (t, Inl (FileNotFoundError (path_join folder ''model.joblib'')))"
  shows "EvJoblibLoad (path_join folder ''model.joblib'') \<in> set t"
  using assms model_path_differs [of folder]
  by (auto simp: get_model_and_data_def io_step_def Let_def io_bind_def io_call_def io_raise_def
      io_return_def external_def open_read_def
      split: sum.splits if_splits prod.splits option.splits node.splits
      dest: py_len_error)

lemma success_runs_to_the_end:
  assumes "get_model_and_data ops w folder = (t, Inr res)"
  shows "EvJoblibLoad (path_join folder ''model.joblib'') \<in> set t"
  using assms
  by (auto simp: get_model_and_data_def io_step_def Let_def io_bind_def io_call_def io_raise_def
      io_return_def
      split: sum.splits if_splits prod.splits)

lemma joblib_load_missing:
  "joblib_load ops w p = Inl (FileNotFoundError p) \<longleftrightarrow> lookup w p = None"
  by (auto simp: joblib_load_def open_read_def external_def
      split: sum.splits option.splits node.splits)

text \<open>
  C2. Once the class-label check has passed, the number of names matching \<^verbatim>\<open>*.yaml\<close>
  decides: none gives the missing-configuration error, two or more give the
  ambiguous-configuration error whatever the names are, and exactly one lets the
  resolver go on to load the configuration, so that neither of the two errors is its
  result.
\<close>

theorem config_search_outcomes:
  assumes "open_read w (path_join folder ''target_names.json'') = Inr fp"
      and "json_load ops fp = Inr tn"
      and "py_len tn = Inr 2"
  shows "(length (glob_star w ''.yaml'') = 0 \<longrightarrow>
            get_model_and_data ops w folder =
              ([EvOpen (path_join folder ''target_names.json''), EvGlob ''*.yaml''],
               Inl NoConfigError))
       \<and> (2 \<le> length (glob_star w ''.yaml'') \<longrightarrow>
            get_model_and_data ops w folder =
              ([EvOpen (path_join folder ''target_names.json''), EvGlob ''*.yaml''],
               Inl ManyConfigError))
       \<and> (length (glob_star w ''.yaml'') = 1 \<longrightarrow>
            (\<exists>t r. get_model_and_data ops w folder =
               ([EvOpen (path_join folder ''target_names.json''), EvGlob ''*.yaml'',
                 EvGetConfig (path_join folder (glob_star w ''.yaml'' ! 0))] @ t, r)
              \<and> r \<noteq> Inl NoConfigError \<and> r \<noteq> Inl ManyConfigError))"
proof (intro conjI impI)
  assume "length (glob_star w ''.yaml'') = 0"
  then show "get_model_and_data ops w folder =
      ([EvOpen (path_join folder ''target_names.json''), EvGlob ''*.yaml''], Inl NoConfigError)"
    by (simp add: past_class_labels [OF assms] io_bind_Inr io_raise_def)
next
  assume "2 \<le> length (glob_star w ''.yaml'')"
  then have "glob_star w ''.yaml'' \<noteq> []" "1 < length (glob_star w ''.yaml'')"
    by auto
  then show "get_model_and_data ops w folder =
      ([EvOpen (path_join folder ''target_names.json''), EvGlob ''*.yaml''], Inl ManyConfigError)"
    by (simp add: past_class_labels [OF assms] io_bind_Inr io_raise_def)
next
  assume "length (glob_star w ''.yaml'') = 1"
  then obtain n where n: "glob_star w ''.yaml'' = [n]"
    by (cases "glob_star w ''.yaml''") auto
  show "\<exists>t r. get_model_and_data ops w folder =
               ([EvOpen (path_join folder ''target_names.json''), EvGlob ''*.yaml'',
                 EvGetConfig (path_join folder (glob_star w ''.yaml'' ! 0))] @ t, r)
              \<and> r \<noteq> Inl NoConfigError \<and> r \<noteq> Inl ManyConfigError"
    unfolding one_config [OF assms n] n
    by (auto simp: io_bind_def io_call_def io_return_def external_def 
        split: sum.splits prod.splits dest: joblib_load_cases)
qed

theorem config_search_outcomes_witness:
  "get_model_and_data demo_ops (demo_world ''/work'') ''/models/m'' =
     ([EvOpen ''/models/m/target_names.json'', EvGlob ''*.yaml''], Inl NoConfigError)
   \<and> get_model_and_data demo_ops (demo_world ''/two'') ''/models/m'' =
     ([EvOpen ''/models/m/target_names.json'', EvGlob ''*.yaml''], Inl ManyConfigError)
   \<and> (\<exists>t r. get_model_and_data demo_ops (demo_world ''/models/m'') ''/models/m'' =
         ([EvOpen ''/models/m/target_names.json'', EvGlob ''*.yaml'',
           EvGetConfig ''/models/m/config.yaml''] @ t, r)
        \<and> r \<noteq> Inl NoConfigError \<and> r \<noteq> Inl ManyConfigError)"
proof -
  let ?tn = "JList [JStr ''neg'', JStr ''pos'']"
  have p: "path_join ''/models/m'' ''target_names.json'' = ''/models/m/target_names.json''"
    "path_join ''/models/m'' ''config.yaml'' = ''/models/m/config.yaml''"
    by code_simp+
  have j: \<open>json_load demo_ops ''["neg", "pos"]'' = Inr ?tn\<close>
    by (simp add: demo_ops_def)
  have l: "py_len ?tn = Inr 2"
    by simp
  have o0: \<open>open_read (demo_world ''/work'') (path_join ''/models/m'' ''target_names.json'')
      = Inr ''["neg", "pos"]''\<close>
    by code_simp
  have o2: \<open>open_read (demo_world ''/two'') (path_join ''/models/m'' ''target_names.json'')
      = Inr ''["neg", "pos"]''\<close>
    by code_simp
  have o1: \<open>open_read (demo_world ''/models/m'') (path_join ''/models/m'' ''target_names.json'')
      = Inr ''["neg", "pos"]''\<close>
    by code_simp
  have g0: "glob_star (demo_world ''/work'') ''.yaml'' = []"
    by code_simp
  have g2: "glob_star (demo_world ''/two'') ''.yaml'' = [''a.yaml'', ''b.yaml'']"
    by code_simp
  have g1: "glob_star (demo_world ''/models/m'') ''.yaml'' = [''config.yaml'']"
    by code_simp
  show ?thesis
    using config_search_outcomes [OF o0 j l] config_search_outcomes [OF o2 j l] config_search_outcomes [OF o1 j l]
    by (simp add: g0 g1 g2 p)
qed

text \<open>
  C3. The claim places the one-configuration-file constraint on the contents of the
  model folder. The resolver counts the matches in the working directory instead: called
  from \<^verbatim>\<open>/work\<close> on the folder \<^verbatim>\<open>/models/m\<close>, which holds exactly one \<^verbatim>\<open>*.yaml\<close> file, it
  raises the missing-configuration error, and called from \<^verbatim>\<open>/two\<close> on the same folder
  it raises the ambiguous-configuration error.
\<close>

theorem config_search_ignores_model_folder:
  "fnmatch_star ''.yaml'' (listdir (demo_world ''/work'') ''/models/m'') = [''config.yaml'']
   \<and> get_model_and_data demo_ops (demo_world ''/work'') ''/models/m'' =
       ([EvOpen ''/models/m/target_names.json'', EvGlob ''*.yaml''], Inl NoConfigError)
   \<and> get_model_and_data demo_ops (demo_world ''/two'') ''/models/m'' =
       ([EvOpen ''/models/m/target_names.json'', EvGlob ''*.yaml''], Inl ManyConfigError)"
proof (intro conjI)
  show "fnmatch_star ''.yaml'' (listdir (demo_world ''/work'') ''/models/m'') = [''config.yaml'']"
    by code_simp
  show "get_model_and_data demo_ops (demo_world ''/work'') ''/models/m'' =
       ([EvOpen ''/models/m/target_names.json'', EvGlob ''*.yaml''], Inl NoConfigError)"
    by code_simp
  show "get_model_and_data demo_ops (demo_world ''/two'') ''/models/m'' =
       ([EvOpen ''/models/m/target_names.json'', EvGlob ''*.yaml''], Inl ManyConfigError)"
    by code_simp
qed

text \<open>
  C4. When the search returns exactly one name, that name is an entry of the working
  directory, and the configuration the resolver loads is the model folder joined with
  that name: it is the only configuration path asked for, and a failure to load it is
  the resolver's result. So the loaded path can name a file that does not exist: run in
  \<^verbatim>\<open>/other\<close> on the folder \<^verbatim>\<open>/models/m\<close>, the search finds \<^verbatim>\<open>run.yaml\<close> and the resolver asks
  for \<^verbatim>\<open>/models/m/run.yaml\<close>, which is not there.
\<close>

theorem config_path_joins_model_folder_with_cwd_match:
  assumes "open_read w (path_join folder ''target_names.json'') = Inr fp"
      and "json_load ops fp = Inr tn"
      and "py_len tn = Inr 2"
      and "glob_star w ''.yaml'' = [n]"
  shows "n \<in> set (listdir w [])
       \<and> (\<exists>t r. get_model_and_data ops w folder =
             ([EvOpen (path_join folder ''target_names.json''), EvGlob ''*.yaml'',
               EvGetConfig (path_join folder n)] @ t, r)
            \<and> (\<forall>q. EvGetConfig q \<notin> set t)
            \<and> (\<forall>msg. get_config ops w (path_join folder n) = Inl msg \<longrightarrow>
                   t = [] \<and> r = Inl (External msg)))
       \<and> glob_star (demo_world ''/other'') ''.yaml'' = [''run.yaml'']
       \<and> lookup (demo_world ''/other'') (path_join ''/models/m'' ''run.yaml'') = None
       \<and> get_model_and_data demo_ops (demo_world ''/other'') ''/models/m'' =
             ([EvOpen ''/models/m/target_names.json'', EvGlob ''*.yaml'',
               EvGetConfig ''/models/m/run.yaml''],
              Inl (External ''cannot read the configuration''))"
proof (intro conjI)
  show "n \<in> set (listdir w [])"
    using glob_star_listed [of n w "''.yaml''"] assms(4) by simp
  show "\<exists>t r. get_model_and_data ops w folder =
             ([EvOpen (path_join folder ''target_names.json''), EvGlob ''*.yaml'',
               EvGetConfig (path_join folder n)] @ t, r)
            \<and> (\<forall>q. EvGetConfig q \<notin> set t)
            \<and> (\<forall>msg. get_config ops w (path_join folder n) = Inl msg \<longrightarrow>
                   t = [] \<and> r = Inl (External msg))"
    unfolding one_config [OF assms]
    by (auto simp: io_bind_def io_call_def io_return_def external_def
        split: sum.splits prod.splits)
  show "glob_star (demo_world ''/other'') ''.yaml'' = [''run.yaml'']"
    by code_simp
  show "lookup (demo_world ''/other'') (path_join ''/models/m'' ''run.yaml'') = None"
    by code_simp
  show "get_model_and_data demo_ops (demo_world ''/other'') ''/models/m'' =
             ([EvOpen ''/models/m/target_names.json'', EvGlob ''*.yaml'',
               EvGetConfig ''/models/m/run.yaml''],
              Inl (External ''cannot read the configuration''))"
    by code_simp
qed

theorem config_path_joins_model_folder_with_cwd_match_witness:
  "''config.yaml'' \<in> set (listdir (demo_world ''/models/m'') [])
   \<and> (\<exists>t r. get_model_and_data demo_ops (demo_world ''/models/m'') ''/models/m'' =
         ([EvOpen ''/models/m/target_names.json'', EvGlob ''*.yaml'',
           EvGetConfig ''/models/m/config.yaml''] @ t, r))"
proof -
  let ?tn = "JList [JStr ''neg'', JStr ''pos'']"
  have p: "path_join ''/models/m'' ''target_names.json'' = ''/models/m/target_names.json''"
    "path_join ''/models/m'' ''config.yaml'' = ''/models/m/config.yaml''"
    by code_simp+
  have j: \<open>json_load demo_ops ''["neg", "pos"]'' = Inr ?tn\<close>
    by (simp add: demo_ops_def)
  have l: "py_len ?tn = Inr 2"
    by simp
  have o: \<open>open_read (demo_world ''/models/m'') (path_join ''/models/m'' ''target_names.json'')
      = Inr ''["neg", "pos"]''\<close>
    by code_simp
  have g: "glob_star (demo_world ''/models/m'') ''.yaml'' = [''config.yaml'']"
    by code_simp
  from config_path_joins_model_folder_with_cwd_match [OF o j l g] show ?thesis
    unfolding p by blast
qed

text \<open>
  C5. The classifier's path is the model folder joined with \<^verbatim>\<open>model.joblib\<close>, and nothing
  looks at it before the deserialization. The resolver ends with the file-not-found
  error for that path exactly when the file is missing and the class-label check, the
  configuration search, the configuration loading and the data loading have all
  succeeded, the deserialization being the last of five events. When the resolver
  succeeds it returns the deserialized classifier with the second and fourth components
  of the loaded data (test inputs and test labels); the training components are
  dropped.
\<close>

theorem missing_model_surfaces_at_deserialization:
  "(get_model_and_data ops w folder =
      (t, Inl (FileNotFoundError (path_join folder ''model.joblib'')))
    \<longleftrightarrow>
      lookup w (path_join folder ''model.joblib'') = None
      \<and> (\<exists>fp tn n cfg split.
            open_read w (path_join folder ''target_names.json'') = Inr fp
          \<and> json_load ops fp = Inr tn \<and> py_len tn = Inr 2
          \<and> glob_star w ''.yaml'' = [n]
          \<and> get_config ops w (path_join folder n) = Inr cfg
          \<and> load_data ops w cfg = Inr split
          \<and> t = [EvOpen (path_join folder ''target_names.json''), EvGlob ''*.yaml'',
                 EvGetConfig (path_join folder n), EvLoadData,
                 EvJoblibLoad (path_join folder ''model.joblib'')]))
   \<and> (get_model_and_data ops w folder = (t, Inr (model, X, y)) \<longrightarrow>
        (\<exists>n cfg X_train y_train.
            glob_star w ''.yaml'' = [n]
          \<and> get_config ops w (path_join folder n) = Inr cfg
          \<and> load_data ops w cfg = Inr (X_train, X, y_train, y)
          \<and> joblib_load ops w (path_join folder ''model.joblib'') = Inr model
          \<and> t = [EvOpen (path_join folder ''target_names.json''), EvGlob ''*.yaml'',
                 EvGetConfig (path_join folder n), EvLoadData,
                 EvJoblibLoad (path_join folder ''model.joblib'')]))"
    (is "(?L \<longleftrightarrow> ?M \<and> ?R) \<and> (?S \<longrightarrow> ?T)")
proof (intro conjI iffI impI)
  assume a: ?L
  from run_to_the_end [OF a file_not_found_only_at_load [OF a]]
  obtain fp tn n cfg X_train X_test y_train y_test where
    s: "open_read w (path_join folder ''target_names.json'') = Inr fp"
       "json_load ops fp = Inr tn" "py_len tn = Inr 2"
       "glob_star w ''.yaml'' = [n]"
       "get_config ops w (path_join folder n) = Inr cfg"
       "load_data ops w cfg = Inr (X_train, X_test, y_train, y_test)"
       "t = [EvOpen (path_join folder ''target_names.json''), EvGlob ''*.yaml'',
                EvGetConfig (path_join folder n), EvLoadData,
                EvJoblibLoad (path_join folder ''model.joblib'')]"
    and r: "Inl (FileNotFoundError (path_join folder ''model.joblib'')) =
             (case joblib_load ops w (path_join folder ''model.joblib'') of
                  Inl e \<Rightarrow> Inl e | Inr model \<Rightarrow> Inr (model, X_test, y_test))"
    by blast
  from r have "joblib_load ops w (path_join folder ''model.joblib'')
      = Inl (FileNotFoundError (path_join folder ''model.joblib''))"
    by (simp split: sum.splits)
  then show ?M by (simp add: joblib_load_missing)
  from s show ?R by blast
next
  assume "?M \<and> ?R"
  then obtain fp tn n cfg split where m: ?M and
    s: "open_read w (path_join folder ''target_names.json'') = Inr fp"
       "json_load ops fp = Inr tn" "py_len tn = Inr 2"
       "glob_star w ''.yaml'' = [n]"
    and c: "get_config ops w (path_join folder n) = Inr cfg"
       "load_data ops w cfg = Inr split"
    and t: "t = [EvOpen (path_join folder ''target_names.json''), EvGlob ''*.yaml'',
                EvGetConfig (path_join folder n), EvLoadData,
                EvJoblibLoad (path_join folder ''model.joblib'')]"
    by blast
  from m have "joblib_load ops w (path_join folder ''model.joblib'')
      = Inl (FileNotFoundError (path_join folder ''model.joblib''))"
    by (simp add: joblib_load_missing)
  then show ?L
    unfolding one_config [OF s]
    by (simp add: c t io_bind_Inr io_bind_Inl external_def io_call_def split: prod.splits)
next
  assume a: ?S
  from run_to_the_end [OF a success_runs_to_the_end [OF a]]
  obtain n cfg X_train X_test y_train y_test where
    s: "glob_star w ''.yaml'' = [n]"
       "get_config ops w (path_join folder n) = Inr cfg"
       "load_data ops w cfg = Inr (X_train, X_test, y_train, y_test)"
       "t = [EvOpen (path_join folder ''target_names.json''), EvGlob ''*.yaml'',
                EvGetConfig (path_join folder n), EvLoadData,
                EvJoblibLoad (path_join folder ''model.joblib'')]"
    and r: "Inr (model, X, y) =
             (case joblib_load ops w (path_join folder ''model.joblib'') of
                  Inl e \<Rightarrow> Inl e | Inr model \<Rightarrow> Inr (model, X_test, y_test))"
    by blast
  from r have "joblib_load ops w (path_join folder ''model.joblib'') = Inr model"
    and "X_test = X" and "y_test = y"
    by (cases "joblib_load ops w (path_join folder ''model.joblib'')"; simp)+
  with s show ?T
    by blast
qed

theorem missing_model_surfaces_at_deserialization_witness:
  "get_model_and_data demo_ops (demo_world ''/models/bare'') ''/models/bare'' =
      ([EvOpen ''/models/bare/target_names.json'', EvGlob ''*.yaml'',
        EvGetConfig ''/models/bare/config.yaml'', EvLoadData,
        EvJoblibLoad ''/models/bare/model.joblib''],
       Inl (FileNotFoundError ''/models/bare/model.joblib''))
   \<and> lookup (demo_world ''/models/bare'') ''/models/bare/model.joblib'' = None
   \<and> get_model_and_data demo_ops (demo_world ''/models/m'') ''/models/m'' =
      ([EvOpen ''/models/m/target_names.json'', EvGlob ''*.yaml'',
        EvGetConfig ''/models/m/config.yaml'', EvLoadData,
        EvJoblibLoad ''/models/m/model.joblib''],
       Inr (''fitted pipeline'', [''fine film''], [1]))
   \<and> (\<exists>X_train y_train.
         load_data demo_ops (demo_world ''/models/m'') ''test_size: 0.2''
           = Inr (X_train, [''fine film''], y_train, [1]))
   \<and> joblib_load demo_ops (demo_world ''/models/m'') ''/models/m/model.joblib''
        = Inr ''fitted pipeline''"
proof -
  have p: "path_join ''/models/bare'' ''model.joblib'' = ''/models/bare/model.joblib''"
    "path_join ''/models/m'' ''model.joblib'' = ''/models/m/model.joblib''"
    "path_join ''/models/m'' ''config.yaml'' = ''/models/m/config.yaml''"
    by code_simp+
  have bare: "get_model_and_data demo_ops (demo_world ''/models/bare'') ''/models/bare'' =
      ([EvOpen ''/models/bare/target_names.json'', EvGlob ''*.yaml'',
        EvGetConfig ''/models/bare/config.yaml'', EvLoadData,
        EvJoblibLoad ''/models/bare/model.joblib''],
       Inl (FileNotFoundError (path_join ''/models/bare'' ''model.joblib'')))"
    by code_simp
  have full: "get_model_and_data demo_ops (demo_world ''/models/m'') ''/models/m'' =
      ([EvOpen ''/models/m/target_names.json'', EvGlob ''*.yaml'',
        EvGetConfig ''/models/m/config.yaml'', EvLoadData,
        EvJoblibLoad ''/models/m/model.joblib''],
       Inr (''fitted pipeline'', [''fine film''], [1]))"
    by code_simp
  have g: "glob_star (demo_world ''/models/m'') ''.yaml'' = [''config.yaml'']"
    by code_simp
  have cfg: "get_config demo_ops (demo_world ''/models/m'') ''/models/m/config.yaml''
     = Inr ''test_size: 0.2''"
    by code_simp
  from missing_model_surfaces_at_deserialization [THEN conjunct1, THEN iffD1, OF bare]
  have 1: "lookup (demo_world ''/models/bare'') ''/models/bare/model.joblib'' = None"
    by (simp add: p)
  from missing_model_surfaces_at_deserialization [THEN conjunct2, rule_format, OF full]
  have 2: "(\<exists>X_train y_train.
         load_data demo_ops (demo_world ''/models/m'') ''test_size: 0.2''
           = Inr (X_train, [''fine film''], y_train, [1]))
     \<and> joblib_load demo_ops (demo_world ''/models/m'') ''/models/m/model.joblib''
        = Inr ''fitted pipeline''"
    by (auto simp: p g cfg)
  from bare full 1 2 show ?thesis
    by (simp add: p)
qed

section \<open>Properties of the training script\<close>

lemma err_bind_Inr_iff:
  "err_bind m f = Inr b \<longleftrightarrow> (\<exists>a. m = Inr a \<and> f a = Inr b)"
  by (cases m) (simp_all add: err_bind_def)

lemma baseline_success:
  assumes "baseline sk w = Inr (w', s)"
  shows "\<exists>df_train df_test X_train X_test y_train0 y_test0.
           read_csv sk w ''data/data_train.csv'' = Inr df_train
         \<and> read_csv sk w ''data/data_test.csv'' = Inr df_test
         \<and> column df_train ''Text'' = Inr X_train
         \<and> column df_test ''Text'' = Inr X_test
         \<and> column df_train ''Class'' = Inr y_train0
         \<and> column df_test ''Class'' = Inr y_test0
         \<and> le_fit_transform sk y_train0 = Inr (le s, y_train s)
         \<and> le_transform sk (le s) y_test0 = Inr (y_test s)
         \<and> tfidf_fit_transform sk X_train = Inr (vectorizer s, X_train_tfidf s)
         \<and> tfidf_transform sk (vectorizer s) X_test = Inr (X_test_tfidf s)
         \<and> logreg_fit sk (X_train_tfidf s) (y_train s) = Inr (clf s)"
proof -
  have ext: "\<And>r a. external r = Inr a \<longleftrightarrow> r = Inr a"
    by (simp add: external_def split: sum.splits)
  from assms show ?thesis
    by (auto simp: baseline_def Let_def err_bind_Inr_iff ext split: prod.splits)
qed

text \<open>
  C8. In a run of the training script that reaches its end, the label encoder and the
  vectorizer are the results of fitting on the \<^verbatim>\<open>Class\<close> and \<^verbatim>\<open>Text\<close> columns of the
  training table, and the encoded test labels and test features are obtained by
  transforming the test columns through these fitted objects. Hence two runs that read
  the same training table end with the same encoder and the same vectorizer, whatever
  their test tables are.
\<close>

theorem encoders_fitted_on_training_split_only:
  assumes "baseline sk w1 = Inr (w1', s1)"
      and "baseline sk w2 = Inr (w2', s2)"
      and "read_csv sk w1 ''data/data_train.csv'' = read_csv sk w2 ''data/data_train.csv''"
  shows "le s1 = le s2 \<and> vectorizer s1 = vectorizer s2
       \<and> (\<exists>df_train y_train0 X_train.
             read_csv sk w1 ''data/data_train.csv'' = Inr df_train
           \<and> column df_train ''Class'' = Inr y_train0
           \<and> column df_train ''Text'' = Inr X_train
           \<and> le_fit_transform sk y_train0 = Inr (le s1, y_train s1)
           \<and> tfidf_fit_transform sk X_train = Inr (vectorizer s1, X_train_tfidf s1))
       \<and> (\<exists>df_test y_test0 X_test.
             read_csv sk w1 ''data/data_test.csv'' = Inr df_test
           \<and> column df_test ''Class'' = Inr y_test0
           \<and> column df_test ''Text'' = Inr X_test
           \<and> le_transform sk (le s1) y_test0 = Inr (y_test s1)
           \<and> tfidf_transform sk (vectorizer s1) X_test = Inr (X_test_tfidf s1))"
proof -
  from baseline_success [OF assms(1)] obtain df_train df_test X_train X_test y_train0 y_test0
    where a: "read_csv sk w1 ''data/data_train.csv'' = Inr df_train"
      "read_csv sk w1 ''data/data_test.csv'' = Inr df_test"
      "column df_train ''Text'' = Inr X_train"
      "column df_test ''Text'' = Inr X_test"
      "column df_train ''Class'' = Inr y_train0"
      "column df_test ''Class'' = Inr y_test0"
      "le_fit_transform sk y_train0 = Inr (le s1, y_train s1)"
      "le_transform sk (le s1) y_test0 = Inr (y_test s1)"
      "tfidf_fit_transform sk X_train = Inr (vectorizer s1, X_train_tfidf s1)"
      "tfidf_transform sk (vectorizer s1) X_test = Inr (X_test_tfidf s1)"
    by blast
  from baseline_success [OF assms(2)] obtain df_train' X_train' y_train0'
    where b: "read_csv sk w2 ''data/data_train.csv'' = Inr df_train'"
      "column df_train' ''Text'' = Inr X_train'"
      "column df_train' ''Class'' = Inr y_train0'"
      "le_fit_transform sk y_train0' = Inr (le s2, y_train s2)"
      "tfidf_fit_transform sk X_train' = Inr (vectorizer s2, X_train_tfidf s2)"
    by blast
  from a(1) b(1) assms(3) have "df_train' = df_train" by simp
  with a b have "le s1 = le s2" "vectorizer s1 = vectorizer s2" by auto
  with a show ?thesis by blast
qed

theorem encoders_fitted_on_training_split_only_witness:
  "\<exists>w1' s1 w2' s2.
       baseline demo_sk (demo_project ''test rows A'') = Inr (w1', s1)
     \<and> baseline demo_sk (demo_project ''test rows B'') = Inr (w2', s2)
     \<and> read_csv demo_sk (demo_project ''test rows A'') ''data/data_train.csv''
         = read_csv demo_sk (demo_project ''test rows B'') ''data/data_train.csv''
     \<and> read_csv demo_sk (demo_project ''test rows A'') ''data/data_test.csv''
         \<noteq> read_csv demo_sk (demo_project ''test rows B'') ''data/data_test.csv''
     \<and> le s1 = le s2 \<and> vectorizer s1 = vectorizer s2 \<and> y_test s1 \<noteq> y_test s2"
proof -
  have "\<not> isl (baseline demo_sk (demo_project ''test rows A''))"
    by code_simp
  then obtain w1' s1 where r1: "baseline demo_sk (demo_project ''test rows A'') = Inr (w1', s1)"
    by (cases "baseline demo_sk (demo_project ''test rows A'')") auto
  have "\<not> isl (baseline demo_sk (demo_project ''test rows B''))"
    by code_simp
  then obtain w2' s2 where r2: "baseline demo_sk (demo_project ''test rows B'') = Inr (w2', s2)"
    by (cases "baseline demo_sk (demo_project ''test rows B'')") auto
  have same: "read_csv demo_sk (demo_project ''test rows A'') ''data/data_train.csv''
         = read_csv demo_sk (demo_project ''test rows B'') ''data/data_train.csv''"
    by code_simp
  have differ: "read_csv demo_sk (demo_project ''test rows A'') ''data/data_test.csv''
         \<noteq> read_csv demo_sk (demo_project ''test rows B'') ''data/data_test.csv''"
    by code_simp
  have y1: "y_test (snd (projr (baseline demo_sk (demo_project ''test rows A'')))) = [0]"
    by code_simp
  have y2: "y_test (snd (projr (baseline demo_sk (demo_project ''test rows B'')))) = [1, 0]"
    by code_simp
  from y1 y2 r1 r2 have ne: "y_test s1 \<noteq> y_test s2" by simp
  from encoders_fitted_on_training_split_only [OF r1 r2 same] have "le s1 = le s2 \<and> vectorizer s1 = vectorizer s2"
    by blast
  with r1 r2 same differ ne show ?thesis by blast
qed

lemma walk_append: "walk k (xs @ ys) = walk (walk k xs) ys"
  by (induction xs arbitrary: k) auto

lemma mkdir_key_exists: "mkdir_key ns p k = Inr ns' \<Longrightarrow> node_at ns' k \<noteq> None"
  by (auto simp: mkdir_key_def node_at_def map_add_def
      split: if_splits option.splits node.splits)

lemma makedirs_comps_exists:
  "makedirs_comps ns p base rcs = Inr ns' \<Longrightarrow> node_at ns' (walk base (rev rcs)) \<noteq> None"
proof (induction rcs arbitrary: ns')
  case Nil
  then show ?case by (simp add: mkdir_key_exists)
next
  case (Cons c rcs)
  show ?case
  proof (cases "c = [] \<or> c = ''.''")
    case True
    with Cons.prems have "makedirs_comps ns p base rcs = Inr ns'" by simp
    from Cons.IH [OF this] True show ?thesis by (auto simp: walk_append)
  next
    case False
    with Cons.prems obtain ns0 where "mkdir_key ns0 p (walk base (rev (c # rcs))) = Inr ns'"
      by (auto split: if_splits sum.splits error.splits)
    then show ?thesis by (rule mkdir_key_exists)
  qed
qed

text \<open>
  C9. The step that creates the artifacts directory does not fail when something
  already exists at its path, and leaves the file system as it is; after a step that
  succeeded the directory exists, so a second step succeeds too and changes nothing.
\<close>

theorem ensure_directory_idempotent:
  "(path_exists w d \<longrightarrow> ensure_directory w d = Inr w) \<and>
   (ensure_directory w d = Inr w' \<longrightarrow> path_exists w' d \<and> ensure_directory w' d = Inr w')"
proof (intro conjI impI)
  assume "path_exists w d" then show "ensure_directory w d = Inr w"
    by (simp add: ensure_directory_def)
next
  assume a: "ensure_directory w d = Inr w'"
  show e: "path_exists w' d"
  proof (cases "path_exists w d")
    case True
    with a show ?thesis by (simp add: ensure_directory_def)
  next
    case False
    with a have m: "makedirs w d = Inr w'" by (simp add: ensure_directory_def)
    then obtain ns' where
      k: "makedirs_comps (nodes w) d (base_of w d) (rev (split_path [] d)) = Inr ns'"
      and w': "w' = w\<lparr>nodes := ns'\<rparr>"
      by (auto simp: makedirs_def split: sum.splits)
    from makedirs_comps_exists [OF k] have "node_at ns' (resolve w d) \<noteq> None"
      by (simp add: resolve_def)
    moreover have "resolve w' d = resolve w d" by (simp add: w' resolve_def base_of_def)
    ultimately show ?thesis by (simp add: path_exists_def lookup_def w')
  qed
  then show "ensure_directory w' d = Inr w'" by (simp add: ensure_directory_def)
qed

theorem ensure_directory_idempotent_witness:
  "\<not> path_exists (demo_project ''test rows A'') ''saved_models''
   \<and> ensure_directory (demo_project ''test rows A'') ''saved_models''
       = Inr ((demo_project ''test rows A'')
               \<lparr>nodes := nodes (demo_project ''test rows A'') @ [([''proj'', ''saved_models''], Dir)]\<rparr>)
   \<and> path_exists ((demo_project ''test rows A'')
               \<lparr>nodes := nodes (demo_project ''test rows A'') @ [([''proj'', ''saved_models''], Dir)]\<rparr>)
         ''saved_models''
   \<and> ensure_directory ((demo_project ''test rows A'')
               \<lparr>nodes := nodes (demo_project ''test rows A'') @ [([''proj'', ''saved_models''], Dir)]\<rparr>)
         ''saved_models''
       = Inr ((demo_project ''test rows A'')
               \<lparr>nodes := nodes (demo_project ''test rows A'') @ [([''proj'', ''saved_models''], Dir)]\<rparr>)"
  (is "\<not> path_exists ?w ?d \<and> ensure_directory ?w ?d = Inr ?w' \<and> _ \<and> _")
proof -
  have n: "\<not> path_exists ?w ?d"
    by code_simp
  have first: "ensure_directory ?w ?d = Inr ?w'"
    by code_simp
  from ensure_directory_idempotent [of ?w ?d ?w', THEN conjunct2, rule_format, OF first]
  have second: "path_exists ?w' ?d \<and> ensure_directory ?w' ?d = Inr ?w'" .
  from ensure_directory_idempotent [of ?w' ?d ?w', THEN conjunct1, rule_format] second
  have "ensure_directory ?w' ?d = Inr ?w'"
    by blast
  with n first second show ?thesis
    by blast
qed

section \<open>The two flows side by side\<close>

text \<open>
  The training script writes its classifier to \<^verbatim>\<open>saved_models/log_reg_tf_idf.joblib\<close> and
  writes no class-label file and no configuration, while the resolver reads the
  class-label file first and then \<^verbatim>\<open>model.joblib\<close>. So the folder the script leaves behind
  is not one the resolver accepts: after a run of the script in the project world, the
  resolver called on \<^verbatim>\<open>saved_models\<close> ends at the missing class-label file, and the file it
  would deserialize is not the one that was written.
\<close>

lemma training_output_is_not_a_model_folder:
  "(case baseline demo_sk (demo_project ''test rows A'') of
      Inl e \<Rightarrow> False
    | Inr (w', s) \<Rightarrow>
        lookup w' ''saved_models/log_reg_tf_idf.joblib'' = Some (File (joblib_dumps demo_sk (clf s)))
      \<and> lookup w' (path_join ''saved_models'' ''model.joblib'') = None
      \<and> get_model_and_data demo_ops w' ''saved_models'' =
          ([EvOpen ''saved_models/target_names.json''],
           Inl (FileNotFoundError ''saved_models/target_names.json'')))"
  by code_simp

end
